theory Spec2Isabelle
  imports Main "HOL-Library.Sublist" "HOL-Library.AList"
begin

section \<open>Go library functions used by the ingestion code\<close>

text \<open>
  A Go \<open>error\<close> is modelled by its message; \<open>nil\<close> is \<open>None\<close> of \<open>error option\<close>.
  Go strings are byte strings, here \<open>string\<close>.
\<close>

type_synonym error = string

text \<open>\<open>strings.Contains(s, substr)\<close>: \<open>substr\<close> occurs in \<open>s\<close> as a contiguous run.\<close>

fun strings_Contains :: "string \<Rightarrow> string \<Rightarrow> bool" where
  "strings_Contains [] substr = (substr = [])"
| "strings_Contains (c # s) substr = (prefix substr (c # s) \<or> strings_Contains s substr)"

text \<open>
  \<open>strings.Split(s, sep)\<close> for a separator of one byte (every call in the repository
  passes \<open>"/"\<close> or \<open>","\<close>): the pieces between the separators, \<open>[""]\<close> for the
  empty string.
\<close>

fun strings_Split :: "string \<Rightarrow> char \<Rightarrow> string list" where
  "strings_Split [] sep = [[]]"
| "strings_Split (c # s) sep =
     (if c = sep then [] # strings_Split s sep
      else (case strings_Split s sep of [] \<Rightarrow> [[c]] | w # ws \<Rightarrow> (c # w) # ws))"

fun strings_Join :: "string list \<Rightarrow> string \<Rightarrow> string" where
  "strings_Join [] sep = []"
| "strings_Join [x] sep = x"
| "strings_Join (x # y # ys) sep = x @ sep @ strings_Join (y # ys) sep"

definition strings_HasPrefix :: "string \<Rightarrow> string \<Rightarrow> bool" where
  "strings_HasPrefix s pfx = prefix pfx s"

definition strings_TrimSuffix :: "string \<Rightarrow> string \<Rightarrow> string" where
  "strings_TrimSuffix s sfx = (if suffix sfx s then take (length s - length sfx) s else s)"

definition slices_Contains :: "string list \<Rightarrow> string \<Rightarrow> bool" where
  "slices_Contains xs x = List.member xs x"

section \<open>Data model (pkg/types)\<close>

record MCPPair =
  Key :: string
  Value :: string
  Name :: string
  pair_Description :: string
  Required :: bool
  Sensitive :: bool

record MCPServerConfig =
  Env :: "MCPPair list"
  Command :: string
  Args :: "string list"
  HTTPHeaders :: "MCPPair list"
  cfg_URL :: string
  URLDescription :: string
  Preferred :: bool

record MCPServerManifest =
  manifest_Name :: string
  manifest_Description :: string
  Category :: string
  Configs :: "MCPServerConfig list"

record Property =
  Type :: string
  prop_Description :: string
  prop_Required :: bool

record MCPTool =
  tool_Name :: string
  tool_Description :: string
  InputSchema :: "(string \<times> Property) list"

text \<open>
  \<open>RepoInfo\<close>, with the field \<open>ProposedManifest\<close> that \<open>SaveRepo\<close> and \<open>UpdateRepo\<close>
  read and write (the snapshot of \<open>types.go\<close> predates it).
\<close>

record RepoInfo =
  ID :: int
  Path :: string
  DisplayName :: string
  FullName :: string
  URL :: string
  Description :: string
  Stars :: int
  ReadmeContent :: string
  Language :: string
  Metadata :: string
  License :: string
  Icon :: string
  Manifest :: string
  ProposedManifest :: string
  ToolDefinitions :: string

text \<open>The zero value of a Go struct: \<open>var repoFromDB types.RepoInfo\<close>.\<close>

definition zero_RepoInfo :: RepoInfo where
  "zero_RepoInfo = \<lparr>ID = 0, Path = [], DisplayName = [], FullName = [], URL = [],
     Description = [], Stars = 0, ReadmeContent = [], Language = [], Metadata = [],
     License = [], Icon = [], Manifest = [], ProposedManifest = [], ToolDefinitions = []\<rparr>"

definition zero_MCPServerManifest :: MCPServerManifest where
  "zero_MCPServerManifest =
     \<lparr>manifest_Name = [], manifest_Description = [], Category = [], Configs = []\<rparr>"

section \<open>Preferred-config selection (utils.MarkPreferred)\<close>

text \<open>
  One \<open>for i, cfg := range configs\<close> loop with its \<open>break\<close>: the index of the first
  entry that satisfies the test, or the incoming \<open>preferredIndex\<close> when none does.
\<close>

fun scan_configs :: "(MCPServerConfig \<Rightarrow> bool) \<Rightarrow> MCPServerConfig list \<Rightarrow> int \<Rightarrow> int \<Rightarrow> int" where
  "scan_configs test [] i preferredIndex = preferredIndex"
| "scan_configs test (cfg # rest) i preferredIndex =
     (if test cfg then i else scan_configs test rest (i + 1) preferredIndex)"

text \<open>
  The slice is mutated in place in Go, so the caller sees the flag; the model returns the
  updated list.
\<close>

definition MarkPreferred :: "MCPServerConfig list \<Rightarrow> MCPServerConfig list" where
  "MarkPreferred configs =
     (let preferredIndex = - 1;
          preferredIndex = scan_configs (\<lambda>cfg. Command cfg = ''npx'') configs 0 preferredIndex;
          preferredIndex =
            (if preferredIndex = - 1
             then scan_configs (\<lambda>cfg. Command cfg = ''uv'' \<or> Command cfg = ''uvx'') configs 0 preferredIndex
             else preferredIndex);
          preferredIndex =
            (if preferredIndex = - 1
             then scan_configs (\<lambda>cfg. Command cfg = ''docker'') configs 0 preferredIndex
             else preferredIndex)
      in if preferredIndex \<noteq> - 1
         then configs[nat preferredIndex := (configs ! nat preferredIndex)\<lparr>Preferred := True\<rparr>]
         else configs)"

section \<open>Deduplication of search results (searchReposByReadme)\<close>

text \<open>
  The fields of a \<open>github.CodeResult\<close> that the code reads. The client library holds
  every JSON field behind a pointer; the ones dereferenced here are part of every search
  result and are modelled as plain strings.
\<close>

record CodeResult =
  cr_FullName :: string
  cr_OwnerLogin :: string
  cr_RepoName :: string
  cr_Path :: string

text \<open>
  The loop over \<open>allRepos\<close> with the set \<open>seen\<close> of keys and the slice \<open>uniqueRepos\<close>
  built so far.
\<close>

fun dedup_loop :: "string set \<Rightarrow> CodeResult list \<Rightarrow> CodeResult list \<Rightarrow> CodeResult list" where
  "dedup_loop seen uniqueRepos [] = uniqueRepos"
| "dedup_loop seen uniqueRepos (repo # rest) =
     (let key = cr_FullName repo @ '':'' @ cr_Path repo
      in if key \<notin> seen then dedup_loop (insert key seen) (uniqueRepos @ [repo]) rest
         else dedup_loop seen uniqueRepos rest)"

definition deduplicate :: "CodeResult list \<Rightarrow> CodeResult list" where
  "deduplicate allRepos = dedup_loop {} [] allRepos"

text \<open>
  Reading aids for the statements below: \<open>k\<close> is the first index of \<open>configs\<close> whose
  entry passes \<open>test\<close>; and a config that is empty but for its command and flag.
\<close>

definition first_with :: "(MCPServerConfig \<Rightarrow> bool) \<Rightarrow> MCPServerConfig list \<Rightarrow> nat \<Rightarrow> bool" where
  "first_with test configs k =
     (k < length configs \<and> test (configs ! k) \<and> (\<forall>j<k. \<not> test (configs ! j)))"

definition config_with :: "string \<Rightarrow> bool \<Rightarrow> MCPServerConfig" where
  "config_with cmd flag = \<lparr>Env = [], Command = cmd, Args = [], HTTPHeaders = [],
     cfg_URL = [], URLDescription = [], Preferred = flag\<rparr>"

text \<open>
  Reading aids for deduplication: the key the loop builds, the pair it stands for, and a
  search result that is empty but for its full name and path.
\<close>

definition result_key :: "CodeResult \<Rightarrow> string" where
  "result_key repo = cr_FullName repo @ '':'' @ cr_Path repo"

definition name_and_path :: "CodeResult \<Rightarrow> string \<times> string" where
  "name_and_path repo = (cr_FullName repo, cr_Path repo)"

definition result_at :: "string \<Rightarrow> string \<Rightarrow> CodeResult" where
  "result_at fullName path = \<lparr>cr_FullName = fullName, cr_OwnerLogin = [], cr_RepoName = [], cr_Path = path\<rparr>"

section \<open>The repositories table and the outside world\<close>

text \<open>
  One row of the table \<open>repositories\<close>, with the columns the ingestion code reads and
  writes (\<open>id\<close> and \<open>created_at\<close> are filled in by the database and never touched by
  it). The table is keyed by \<open>full_name\<close>, which is \<open>UNIQUE\<close>, so it is a partial map
  from full names to rows. Every column that \<open>INSERT\<close> and \<open>UPDATE\<close> fill from a Go
  string holds that text; \<open>proposed_manifest\<close> is left out of the \<open>INSERT\<close> and is
  \<open>NULL\<close> (\<open>None\<close>) until an \<open>UPDATE\<close> sets it. The columns that \<open>AddRepo\<close> scans
  into Go strings are the ones every write of \<open>SaveRepo\<close> fills, so a scan of \<open>NULL\<close>
  is not part of the model. A JSONB column is modelled by the text written to it.
\<close>

record Row =
  full_name :: string
  url :: string
  description :: string
  display_name :: string
  stars :: int
  readme_content :: string
  language :: string
  path :: string
  manifest :: string
  icon :: string
  metadata :: string
  tool_definitions :: string
  proposed_manifest :: "string option"

type_synonym store = "string \<rightharpoonup> Row"

text \<open>The fields of a \<open>github.Repository\<close> that \<open>AddRepo\<close> reads.\<close>

record Repository =
  repo_FullName :: string
  repo_Name :: string
  repo_OwnerLogin :: string
  repo_HTMLURL :: string
  repo_DefaultBranch :: string
  repo_Description :: string
  repo_StargazersCount :: int
  repo_Language :: string
  repo_OwnerAvatarURL :: string

text \<open>
  The three answers of \<open>githubClient.Search.Code\<close> that the code tells apart: a
  \<open>RateLimitError\<close>, any other error, and a page of results.
\<close>

datatype search_response = RateLimited | SearchFailed error | SearchResults "CodeResult list"

text \<open>
  How the outside world answers during one ingestion: the GitHub client, the completion
  service, the JSON codec and the database driver. A theorem that holds for every
  \<open>world\<close> holds whatever these collaborators do.
  \<^item> \<open>Search_Code\<close> takes the number of the retry as well as the query: the rate limiter is
    the one answer that changes while the code waits and asks again.
  \<^item> The two prompts are fixed templates around the repository name and README text, and
    around the collected source text and README text; the completion is a function of
    those, and gives the error of the call or the contents of the choices returned.
  \<^item> \<open>json_Unmarshal_manifest\<close> gives the error (if any) together with the value left in
    \<open>result\<close>, which \<open>AnalyzeWithOpenAI\<close> returns even beside an error.
  \<^item> \<open>range_order\<close> is the order in which the runtime ranges over a Go map.
  \<^item> \<open>select_err\<close>, \<open>count_err\<close> and \<open>exec_err\<close> are the failures of the database
    itself (connection loss, a text that a \<open>::jsonb\<close> cast rejects, a violated
    constraint): of the \<open>SELECT\<close> in \<open>AddRepo\<close>, of the counting \<open>SELECT\<close> in
    \<open>SaveRepo\<close>, and of the statement that would leave the given row.
\<close>

record world =
  Repositories_Get :: "string \<Rightarrow> string \<Rightarrow> error + Repository"
  Repositories_GetContents :: "string \<Rightarrow> string \<Rightarrow> string \<Rightarrow> error + string"
  Search_Code :: "nat \<Rightarrow> string \<Rightarrow> search_response"
  analysis_completion :: "string \<Rightarrow> string \<Rightarrow> error + string list"
  tools_completion :: "string \<Rightarrow> string \<Rightarrow> error + string list"
  json_Unmarshal_manifest :: "string \<Rightarrow> MCPServerManifest \<times> error option"
  json_Marshal_configs :: "MCPServerConfig list \<Rightarrow> error + string"
  json_Unmarshal_metadata :: "string \<Rightarrow> error + (string \<rightharpoonup> string)"
  json_Marshal_metadata :: "(string \<rightharpoonup> string) \<Rightarrow> error + string"
  json_Unmarshal_tools :: "string \<Rightarrow> error + MCPTool list"
  json_Marshal_tools :: "MCPTool list \<Rightarrow> error + string"
  range_order :: "CodeResult list \<Rightarrow> CodeResult list"
  select_err :: "error option"
  count_err :: "error option"
  exec_err :: "Row \<Rightarrow> error option"

text \<open>
  A call either returns or panics (an index out of range); a call that waits on the rate
  limiter for ever has no outcome at all, which the functions below express by \<open>None\<close>.
\<close>

datatype 'a outcome = Returned 'a | Panicked

section \<open>Persisting a record (utils.SaveRepo)\<close>

definition SaveRepo :: "world \<Rightarrow> store \<Rightarrow> RepoInfo \<Rightarrow> bool \<Rightarrow> error option \<times> store" where
  "SaveRepo w db repo proposed =
     (case count_err w of
        Some err \<Rightarrow> (Some (''error checking if repository exists: '' @ err), db)
      | None \<Rightarrow>
         (case db (FullName repo) of
            Some row \<Rightarrow>
              (let row' =
                 (if \<not> proposed
                  then row\<lparr>url := URL repo, description := Description repo,
                         display_name := DisplayName repo, stars := Stars repo,
                         readme_content := ReadmeContent repo, language := Language repo,
                         path := Path repo, manifest := Manifest repo, icon := Icon repo,
                         metadata := Metadata repo, tool_definitions := ToolDefinitions repo,
                         proposed_manifest := Some ''{}''\<rparr>
                  else row\<lparr>url := URL repo, description := Description repo,
                         display_name := DisplayName repo, stars := Stars repo,
                         readme_content := ReadmeContent repo, language := Language repo,
                         path := Path repo, proposed_manifest := Some (ProposedManifest repo),
                         icon := Icon repo, metadata := Metadata repo,
                         tool_definitions := ToolDefinitions repo\<rparr>)
               in case exec_err w row' of
                    Some err \<Rightarrow>
                      (Some (''error updating repository '' @ FullName repo @ '': '' @ err), db)
                  | None \<Rightarrow> (None, db(FullName repo \<mapsto> row')))
          | None \<Rightarrow>
              (let repo = (if Metadata repo = [] then repo\<lparr>Metadata := ''{}''\<rparr> else repo);
                   row' = \<lparr>full_name = FullName repo, url = URL repo,
                     description = Description repo, display_name = DisplayName repo,
                     stars = Stars repo, readme_content = ReadmeContent repo,
                     language = Language repo, path = Path repo, manifest = Manifest repo,
                     icon = Icon repo, metadata = Metadata repo,
                     tool_definitions = ToolDefinitions repo, proposed_manifest = None\<rparr>
               in case exec_err w row' of
                    Some err \<Rightarrow>
                      (Some (''error inserting repository '' @ FullName repo @ '': '' @ err), db)
                  | None \<Rightarrow> (None, db(FullName repo \<mapsto> row')))))"

section \<open>The extraction oracle (utils.AnalyzeWithOpenAI)\<close>

text \<open>
  The three failures (the call's own error, an empty choice list, a response that does
  not parse) and the success. \<open>existingConfig\<close> is a parameter that the prompt never
  uses.
\<close>

definition AnalyzeWithOpenAI ::
  "world \<Rightarrow> string \<Rightarrow> string \<Rightarrow> string \<Rightarrow> MCPServerManifest \<times> error option" where
  "AnalyzeWithOpenAI w repoName readmeContent existingConfig =
     (let result = zero_MCPServerManifest
      in case analysis_completion w repoName readmeContent of
           Inl err \<Rightarrow> (result, Some (''OpenAI API error: '' @ err))
         | Inr choices \<Rightarrow>
            (case choices of
               [] \<Rightarrow> (result, Some ''no response from OpenAI'')
             | content # _ \<Rightarrow>
                (case json_Unmarshal_manifest w content of
                   (result, Some err) \<Rightarrow> (result, Some (''error parsing OpenAI response: '' @ err))
                 | (result, None) \<Rightarrow> (result, None))))"

section \<open>Tool-definition backfill (scrapeToolDefinitions)\<close>

text \<open>
  \<open>scrapeToolDefinitions\<close> of \<open>collect.go\<close> and \<open>utils.ScrapeToolDefinitions\<close> are the same
  text but for the clients they reach (globals in one, parameters in the other).
  The loop over the files found: a file outside the README's directory is skipped, every
  other one is fetched and appended to \<open>data\<close>.
\<close>

fun fetch_sources :: "world \<Rightarrow> string \<Rightarrow> CodeResult list \<Rightarrow> string \<Rightarrow> error + string" where
  "fetch_sources w pfx [] data = Inr data"
| "fetch_sources w pfx (codeResult # rest) data =
     (if \<not> strings_HasPrefix (cr_Path codeResult) pfx then fetch_sources w pfx rest data
      else (case Repositories_GetContents w (cr_OwnerLogin codeResult) (cr_RepoName codeResult)
                   (cr_Path codeResult) of
              Inl err \<Rightarrow> Inl err
            | Inr content \<Rightarrow> fetch_sources w pfx rest (data @ content)))"

text \<open>
  What follows the two searches: the map \<open>resultSet\<close> keyed by owner/name/path (a later
  result replaces an earlier one of the same key), the fetches, the completion, and the
  decoding. \<open>response.Choices[0]\<close> is read without a length check.
\<close>

definition extract_tools ::
  "world \<Rightarrow> RepoInfo \<Rightarrow> CodeResult list \<Rightarrow> (error option \<times> RepoInfo) outcome" where
  "extract_tools w repo allResults =
     (let resultSet =
            fold (\<lambda>codeResult m.
                    AList.update
                      (cr_OwnerLogin codeResult @ ''/'' @ cr_RepoName codeResult @ ''/'' @ cr_Path codeResult)
                      codeResult m)
              allResults [];
          filteredResults = range_order w (map snd resultSet);
          pfx = strings_TrimSuffix (Path repo) ''README.md''
      in case fetch_sources w pfx filteredResults [] of
           Inl err \<Rightarrow> Returned (Some err, repo)
         | Inr data \<Rightarrow>
            (case tools_completion w data (ReadmeContent repo) of
               Inl err \<Rightarrow> Returned (Some (''error getting response from OpenAI: '' @ err), repo)
             | Inr choices \<Rightarrow>
                (case choices of
                   [] \<Rightarrow> Panicked
                 | content # _ \<Rightarrow>
                    (case json_Unmarshal_tools w content of
                       Inl err \<Rightarrow> Returned (Some (''error unmarshalling tools: '' @ err), repo)
                     | Inr tools \<Rightarrow>
                        (case json_Marshal_tools w tools of
                           Inl err \<Rightarrow> Returned (Some (''error marshalling tools: '' @ err), repo)
                         | Inr toolRaw \<Rightarrow> Returned (None, repo\<lparr>ToolDefinitions := toolRaw\<rparr>))))))"

text \<open>
  The \<open>for { ... }\<close> loop: each pass runs the two searches; a rate-limit error on either
  makes the code sleep and start the pass again, with no bound on the number of passes.
  \<open>fuel\<close> bounds the passes in the model, and \<open>None\<close> says the bound was reached with
  the rate limiter still refusing.
\<close>

fun scrapeToolDefinitions ::
  "world \<Rightarrow> nat \<Rightarrow> nat \<Rightarrow> RepoInfo \<Rightarrow> (error option \<times> RepoInfo) outcome option" where
  "scrapeToolDefinitions w 0 attempt repo = None"
| "scrapeToolDefinitions w (Suc fuel) attempt repo =
     (let parts = strings_Split (FullName repo) CHR ''/''
      in if length parts < 2
         then Some (Returned (Some (''invalid repo name: '' @ FullName repo), repo))
         else (case Search_Code w attempt
                      (''tool extension:ts repo:'' @ parts ! 0 @ ''/'' @ parts ! 1) of
                 RateLimited \<Rightarrow> scrapeToolDefinitions w fuel (Suc attempt) repo
               | SearchFailed err \<Rightarrow> Some (Returned (Some err, repo))
               | SearchResults result1 \<Rightarrow>
                  (case Search_Code w attempt
                          (''mcp.tool extension:py repo:'' @ parts ! 0 @ ''/'' @ parts ! 1) of
                     RateLimited \<Rightarrow> scrapeToolDefinitions w fuel (Suc attempt) repo
                   | SearchFailed err \<Rightarrow> Some (Returned (Some err, repo))
                   | SearchResults result2 \<Rightarrow> Some (extract_tools w repo (result1 @ result2)))))"

section \<open>Backfill and persist (the tail shared by AddRepo and UpdateRepo)\<close>

text \<open>
  Lines 298-319 of \<open>collect.go\<close> and 510-531 of \<open>utils\<close>: the search for a preferred
  config, the backfill when the stored tool definitions are empty or a placeholder or the
  run is forced, the placeholder for empty tool definitions, and the one call of
  \<open>SaveRepo\<close>. \<open>stored\<close> is \<open>repoFromDB.ToolDefinitions\<close> in \<open>AddRepo\<close> and
  \<open>repo.ToolDefinitions\<close> in \<open>UpdateRepo\<close>.
\<close>

definition save_with_placeholder ::
  "world \<Rightarrow> store \<Rightarrow> RepoInfo \<Rightarrow> bool \<Rightarrow> error option outcome \<times> store" where
  "save_with_placeholder w db repoInfo proposed =
     (let repoInfo =
            (if ToolDefinitions repoInfo = [] then repoInfo\<lparr>ToolDefinitions := ''{}''\<rparr>
             else repoInfo)
      in case SaveRepo w db repoInfo proposed of (err, db') \<Rightarrow> (Returned err, db'))"

definition backfill_and_save ::
  "world \<Rightarrow> nat \<Rightarrow> store \<Rightarrow> string \<Rightarrow> bool \<Rightarrow> string \<Rightarrow> MCPServerManifest \<Rightarrow> RepoInfo \<Rightarrow> bool
     \<Rightarrow> (error option outcome \<times> store) option" where
  "backfill_and_save w fuel db fullName force stored analysis repoInfo proposed =
     (let foundPreferred = list_ex Preferred (Configs analysis)
      in if foundPreferred \<and> (stored = [] \<or> stored = ''{}'' \<or> force)
         then (case scrapeToolDefinitions w fuel 0 repoInfo of
                 None \<Rightarrow> None
               | Some Panicked \<Rightarrow> Some (Panicked, db)
               | Some (Returned (Some err, repoInfo)) \<Rightarrow>
                   Some (Returned (Some (''error scraping tool definitions for repository ''
                                           @ fullName @ '': '' @ err)), db)
               | Some (Returned (None, repoInfo)) \<Rightarrow>
                   Some (save_with_placeholder w db repoInfo proposed))
         else Some (save_with_placeholder w db repoInfo proposed))"

section \<open>Ingestion of one candidate (AddRepo of collect.go)\<close>

text \<open>Lines 212-224: the record's name and URL, with the README's directory appended.\<close>

definition derived_fullName :: "Repository \<Rightarrow> string \<Rightarrow> string" where
  "derived_fullName githubRepo path' =
     (let parts = strings_Split path' CHR ''/''
      in if length parts > 1
         then repo_FullName githubRepo @ ''/'' @ strings_Join (butlast parts) ''/''
         else repo_FullName githubRepo)"

definition derived_URL :: "Repository \<Rightarrow> string \<Rightarrow> string" where
  "derived_URL githubRepo path' =
     (let parts = strings_Split path' CHR ''/''
      in if length parts > 1
         then repo_HTMLURL githubRepo @ ''/tree/'' @ repo_DefaultBranch githubRepo @ ''/''
                @ strings_Join (butlast parts) ''/''
         else repo_HTMLURL githubRepo)"

text \<open>
  Line 243: the \<open>SELECT\<close> of the stored record into the zero value \<open>repoFromDB\<close>. The
  error is \<open>nil\<close> exactly when the database answers and holds a row of that name.
\<close>

definition QueryRow_stored :: "world \<Rightarrow> store \<Rightarrow> string \<Rightarrow> error option \<times> RepoInfo" where
  "QueryRow_stored w db fullName =
     (case select_err w of
        Some err \<Rightarrow> (Some err, zero_RepoInfo)
      | None \<Rightarrow>
         (case db fullName of
            None \<Rightarrow> (Some ''sql: no rows in result set'', zero_RepoInfo)
          | Some row \<Rightarrow>
             (None, zero_RepoInfo\<lparr>ReadmeContent := readme_content row, Manifest := manifest row,
                      Metadata := metadata row, ToolDefinitions := tool_definitions row\<rparr>)))"

text \<open>
  \<open>AddRepo\<close> up to the point where the backfill starts: either the call is over
  (\<open>Stop\<close>, with the error returned or \<open>nil\<close>), or it goes on with the target column
  chosen (\<open>proposed\<close>), the stored record read, the analysis and the record to save.
\<close>

datatype prepared = Stop "error option" | Continue bool RepoInfo MCPServerManifest RepoInfo

text \<open>
  Lines 258-296: the analysis and the merge of its result into \<open>repoInfo\<close>. A failed
  analysis is logged and the call goes on with what \<open>AnalyzeWithOpenAI\<close> returned beside
  the error.
\<close>

definition AddRepo_analyse ::
  "world \<Rightarrow> string \<Rightarrow> string \<Rightarrow> bool \<Rightarrow> RepoInfo \<Rightarrow> RepoInfo \<Rightarrow> prepared" where
  "AddRepo_analyse w fullName readmeContent proposed repoFromDB repoInfo =
     (case AnalyzeWithOpenAI w fullName readmeContent (Manifest repoFromDB) of
        (analysis, Some err) \<Rightarrow> Continue proposed repoFromDB analysis repoInfo
      | (analysis, None) \<Rightarrow>
         if length (Configs analysis) = 0
         then Stop (Some (''no MCP server found in repository '' @ fullName))
         else
          (let analysis = analysis\<lparr>Configs := MarkPreferred (Configs analysis)\<rparr>
           in case json_Marshal_configs w (Configs analysis) of
                Inl err \<Rightarrow>
                  Stop (Some (''error marshaling manifest for repository '' @ fullName @ '': '' @ err))
              | Inr manifestBytes \<Rightarrow>
                 (let repoInfo =
                        (if proposed then repoInfo\<lparr>ProposedManifest := manifestBytes\<rparr>
                         else repoInfo\<lparr>Manifest := manifestBytes\<rparr>)
                  in case (if Metadata repoInfo \<noteq> []
                           then json_Unmarshal_metadata w (Metadata repoInfo)
                           else Inr Map.empty) of
                       Inl err \<Rightarrow>
                         Stop (Some (''error unmarshalling metadata for repository ''
                                       @ fullName @ '': '' @ err))
                     | Inr metadata' \<Rightarrow>
                        (let metadata' = metadata'(''categories'' \<mapsto> Category analysis)
                         in case json_Marshal_metadata w metadata' of
                              Inl err \<Rightarrow>
                                Stop (Some (''error marshaling metadata for repository ''
                                              @ fullName @ '': '' @ err))
                            | Inr metadataBytes \<Rightarrow>
                                Continue proposed repoFromDB analysis
                                  (repoInfo\<lparr>Metadata := metadataBytes,
                                     Description := manifest_Description analysis,
                                     DisplayName := manifest_Name analysis\<rparr>)))))"

text \<open>Lines 190-256: the fetches, the pre-filter, the lookup and the choice of column.\<close>

definition AddRepo_prepare :: "world \<Rightarrow> store \<Rightarrow> string \<Rightarrow> string \<Rightarrow> string \<Rightarrow> bool \<Rightarrow> prepared" where
  "AddRepo_prepare w db owner repo path' force =
     (case Repositories_Get w owner repo of
        Inl err \<Rightarrow> Stop (Some err)
      | Inr githubRepo \<Rightarrow>
         (case Repositories_GetContents w (repo_OwnerLogin githubRepo) (repo_Name githubRepo) path' of
            Inl err \<Rightarrow> Stop (Some err)
          | Inr readmeContent \<Rightarrow>
             (let fullName = derived_fullName githubRepo path';
                  repoURL = derived_URL githubRepo path'
              in if \<not> strings_Contains readmeContent ''mcpServers''
                    \<and> \<not> strings_Contains readmeContent ''npx''
                    \<and> \<not> strings_Contains readmeContent ''docker''
                    \<and> \<not> strings_Contains readmeContent ''uv''
                 then Stop (Some (''no MCP server found in repository '' @ fullName))
                 else
                  (let repoInfo = zero_RepoInfo\<lparr>FullName := fullName, Path := path',
                         URL := repoURL, Description := repo_Description githubRepo,
                         Stars := repo_StargazersCount githubRepo,
                         ReadmeContent := readmeContent, Language := repo_Language githubRepo,
                         Icon := repo_OwnerAvatarURL githubRepo\<rparr>
                   in case QueryRow_stored w db fullName of
                        (err, repoFromDB) \<Rightarrow>
                          if err = None \<and> ReadmeContent repoFromDB = readmeContent \<and> \<not> force
                          then Stop None
                          else
                           (let proposed =
                                  (if (Manifest repoFromDB = [] \<or> Manifest repoFromDB = ''{}'') \<or> force
                                   then False else True)
                            in AddRepo_analyse w fullName readmeContent proposed repoFromDB repoInfo)))))"

text \<open>The whole call: the preparation, then the backfill and the one \<open>SaveRepo\<close>.\<close>

definition AddRepo ::
  "world \<Rightarrow> nat \<Rightarrow> store \<Rightarrow> string \<Rightarrow> string \<Rightarrow> string \<Rightarrow> bool
     \<Rightarrow> (error option outcome \<times> store) option" where
  "AddRepo w fuel db owner repo path' force =
     (case AddRepo_prepare w db owner repo path' force of
        Stop err \<Rightarrow> Some (Returned err, db)
      | Continue proposed repoFromDB analysis repoInfo \<Rightarrow>
          backfill_and_save w fuel db (FullName repoInfo) force (ToolDefinitions repoFromDB)
            analysis repoInfo proposed)"

section \<open>Re-analysis of a stored record (utils.UpdateRepo)\<close>

text \<open>
  Lines 490-499: the new value of \<open>metadata["categories"]\<close>. A missing key reads as the
  empty string, as a Go map gives it.
\<close>

definition merge_categories :: "(string \<rightharpoonup> string) \<Rightarrow> string \<Rightarrow> (string \<rightharpoonup> string)" where
  "merge_categories metadata' category =
     (let verified = False;
          existingCategories =
            strings_Split (case metadata' ''categories'' of None \<Rightarrow> [] | Some v \<Rightarrow> v) CHR '','';
          verified = (if \<not> slices_Contains existingCategories ''Verified'' then True else verified);
          categories = category;
          categories = (if verified then categories @ '',Verified'' else categories)
      in metadata'(''categories'' \<mapsto> categories))"

definition UpdateRepo ::
  "world \<Rightarrow> nat \<Rightarrow> store \<Rightarrow> RepoInfo \<Rightarrow> bool \<Rightarrow> string \<Rightarrow> string
     \<Rightarrow> (error option outcome \<times> store) option" where
  "UpdateRepo w fuel db repo force fullName readmeContent =
     (let proposed = (if (Manifest repo = [] \<or> Manifest repo = ''{}'') \<or> force then False else True)
      in case AnalyzeWithOpenAI w fullName readmeContent (Manifest repo) of
           (analysis, Some err) \<Rightarrow>
             backfill_and_save w fuel db fullName force (ToolDefinitions repo) analysis repo proposed
         | (analysis, None) \<Rightarrow>
            if length (Configs analysis) = 0
            then Some (Returned (Some (''no MCP server found in repository '' @ fullName)), db)
            else
             (let analysis = analysis\<lparr>Configs := MarkPreferred (Configs analysis)\<rparr>
              in case json_Marshal_configs w (Configs analysis) of
                   Inl err \<Rightarrow>
                     Some (Returned (Some (''error marshaling manifest for repository ''
                                             @ fullName @ '': '' @ err)), db)
                 | Inr manifestBytes \<Rightarrow>
                    (let repo = (if proposed then repo\<lparr>ProposedManifest := manifestBytes\<rparr>
                                 else repo\<lparr>Manifest := manifestBytes\<rparr>)
                     in case (if Metadata repo \<noteq> [] then json_Unmarshal_metadata w (Metadata repo)
                              else Inr Map.empty) of
                          Inl err \<Rightarrow>
                            Some (Returned (Some (''error unmarshalling metadata for repository ''
                                                    @ fullName @ '': '' @ err)), db)
                        | Inr metadata' \<Rightarrow>
                           (let metadata' = merge_categories metadata' (Category analysis)
                            in case json_Marshal_metadata w metadata' of
                                 Inl err \<Rightarrow>
                                   Some (Returned (Some (''error marshaling metadata for repository ''
                                                           @ fullName @ '': '' @ err)), db)
                               | Inr metadataBytes \<Rightarrow>
                                  (let repo = repo\<lparr>Metadata := metadataBytes,
                                                Description := manifest_Description analysis,
                                                DisplayName := manifest_Name analysis\<rparr>
                                   in backfill_and_save w fuel db fullName force
                                        (ToolDefinitions repo) analysis repo proposed)))))"

section \<open>Ingestion with the icon backfill (the later AddRepo)\<close>




section \<open>Fixtures for the closed instances\<close>

text \<open>
  Concrete collaborators for the instances evaluated below. The database of the fixtures
  rejects a row whose JSONB text is empty, as a \<open>::jsonb\<close> cast does; the codec renders a
  config list as its commands, a preferred one starred. The repository \<open>o/r\<close> has a README
  at its root; the store holds its record with the accepted manifest \<open>[1]\<close>.
\<close>

definition rejects_empty_json :: "Row \<Rightarrow> error option" where
  "rejects_empty_json row =
     (if manifest row = [] \<or> metadata row = [] \<or> tool_definitions row = []
         \<or> proposed_manifest row = Some []
      then Some ''pq: invalid input syntax for type json'' else None)"

definition offline_world :: world where
  "offline_world =
     \<lparr>Repositories_Get = (\<lambda>owner repo. Inl ''offline''),
      Repositories_GetContents = (\<lambda>owner repo path'. Inl ''offline''),
      Search_Code = (\<lambda>attempt query. SearchResults []),
      analysis_completion = (\<lambda>repoName readme. Inl ''offline''),
      tools_completion = (\<lambda>data readme. Inl ''offline''),
      json_Unmarshal_manifest = (\<lambda>content. (zero_MCPServerManifest, Some ''unexpected end of JSON input'')),
      json_Marshal_configs = (\<lambda>configs. Inr ''[]''),
      json_Unmarshal_metadata = (\<lambda>content. Inr Map.empty),
      json_Marshal_metadata = (\<lambda>m. Inr ''{}''),
      json_Unmarshal_tools = (\<lambda>content. Inr []),
      json_Marshal_tools = (\<lambda>tools. Inr ''[]''),
      range_order = (\<lambda>results. results),
      select_err = None, count_err = None, exec_err = rejects_empty_json\<rparr>"

definition stored_row :: "string \<Rightarrow> string \<Rightarrow> string \<Rightarrow> Row" where
  "stored_row fullName readme accepted =
     \<lparr>full_name = fullName, url = [], description = [], display_name = [], stars = 0,
      readme_content = readme, language = [], path = ''README.md'', manifest = accepted,
      icon = [], metadata = ''{}'', tool_definitions = ''{}'', proposed_manifest = None\<rparr>"

definition render_configs :: "MCPServerConfig list \<Rightarrow> string" where
  "render_configs configs =
     concat (map (\<lambda>c. Command c @ (if Preferred c then ''*'' else []) @ '';'') configs)"

definition demo_repository :: Repository where
  "demo_repository = \<lparr>repo_FullName = ''o/r'', repo_Name = ''r'', repo_OwnerLogin = ''o'',
     repo_HTMLURL = ''https://github.com/o/r'', repo_DefaultBranch = ''main'',
     repo_Description = ''a server'', repo_StargazersCount = 7, repo_Language = ''Go'',
     repo_OwnerAvatarURL = ''https://avatars/o''\<rparr>"

definition demo_world :: world where
  "demo_world = offline_world
     \<lparr>Repositories_Get := (\<lambda>owner repo. Inr demo_repository),
      Repositories_GetContents := (\<lambda>owner repo path'. Inr ''run: npx server v2''),
      analysis_completion := (\<lambda>repoName readme. Inr [''json'']),
      json_Unmarshal_manifest := (\<lambda>content.
         (\<lparr>manifest_Name = ''server'', manifest_Description = ''does things'',
           Category = ''Developer Tools'',
           Configs = [config_with ''docker'' False, config_with ''npx'' False]\<rparr>, None)),
      json_Marshal_configs := (\<lambda>configs. Inr (render_configs configs)),
      tools_completion := (\<lambda>data readme. Inr [''json''])\<rparr>"

definition demo_store :: store where
  "demo_store = [''o/r'' \<mapsto> stored_row ''o/r'' ''run: npx server'' ''[1]'']"

definition reloaded_repo :: RepoInfo where
  "reloaded_repo = zero_RepoInfo\<lparr>FullName := ''o/r'', Path := ''README.md'',
     ReadmeContent := ''run: npx server'', Manifest := ''[1]'', Metadata := ''{}'',
     ProposedManifest := ''{}'', ToolDefinitions := ''{}''\<rparr>"


section \<open>Preferred-config selection: properties\<close>

lemma scan_none: "\<not> list_ex test xs \<Longrightarrow> scan_configs test xs i d = d"
  by (induction xs arbitrary: i) auto

lemma scan_some:
  "list_ex test xs \<Longrightarrow> \<exists>k. first_with test xs k \<and> scan_configs test xs i d = i + int k"
proof (induction xs arbitrary: i)
  case Nil
  then show ?case by simp
next
  case (Cons x xs)
  show ?case
  proof (cases "test x")
    case True
    then have "first_with test (x # xs) 0" by (simp add: first_with_def)
    with True show ?thesis by force
  next
    case False
    with Cons.prems have "list_ex test xs" by simp
    from Cons.IH[OF this, of "i + 1"] obtain k where
      k: "first_with test xs k" "scan_configs test xs (i + 1) d = i + 1 + int k" by blast
    from k(1) False have "first_with test (x # xs) (Suc k)"
      by (auto simp: first_with_def less_Suc_eq_0_disj)
    with k(2) False show ?thesis by force
  qed
qed

lemma filter_update_le:
  assumes "\<forall>c\<in>set xs. \<not> P c"
  shows "length (filter P (xs[k := y])) \<le> 1"
  using assms
proof (induction xs arbitrary: k)
  case Nil
  then show ?case by simp
next
  case (Cons x xs)
  then show ?case
  proof (cases k)
    case 0
    with Cons.prems have "filter P xs = []" by (auto simp: filter_empty_conv)
    with 0 show ?thesis by simp
  next
    case (Suc n)
    with Cons show ?thesis by simp
  qed
qed

text \<open>
  C6 (as amended). For a config list in which no entry is marked preferred on entry,
  after \<open>MarkPreferred\<close> at most one entry is preferred; when some entry has command
  \<open>npx\<close> the first such entry is the one marked and nothing else changes; otherwise the
  first \<open>uv\<close>/\<open>uvx\<close> entry; otherwise the first \<open>docker\<close> entry; otherwise no entry
  is marked.
\<close>

theorem MarkPreferred_priority:
  assumes "\<forall>c\<in>set configs. \<not> Preferred c"
  shows "length (filter Preferred (MarkPreferred configs)) \<le> 1 \<and>
    (if list_ex (\<lambda>c. Command c = ''npx'') configs
     then \<exists>k. first_with (\<lambda>c. Command c = ''npx'') configs k \<and>
            MarkPreferred configs = configs[k := (configs ! k)\<lparr>Preferred := True\<rparr>]
     else if list_ex (\<lambda>c. Command c = ''uv'' \<or> Command c = ''uvx'') configs
     then \<exists>k. first_with (\<lambda>c. Command c = ''uv'' \<or> Command c = ''uvx'') configs k \<and>
            MarkPreferred configs = configs[k := (configs ! k)\<lparr>Preferred := True\<rparr>]
     else if list_ex (\<lambda>c. Command c = ''docker'') configs
     then \<exists>k. first_with (\<lambda>c. Command c = ''docker'') configs k \<and>
            MarkPreferred configs = configs[k := (configs ! k)\<lparr>Preferred := True\<rparr>]
     else list_all (\<lambda>c. \<not> Preferred c) (MarkPreferred configs))"
proof -
  let ?npx = "\<lambda>c. Command c = ''npx''"
  let ?uv = "\<lambda>c. Command c = ''uv'' \<or> Command c = ''uvx''"
  let ?docker = "\<lambda>c. Command c = ''docker''"
  let ?mark = "\<lambda>k. configs[k := (configs ! k)\<lparr>Preferred := True\<rparr>]"
  have none: "list_all (\<lambda>c. \<not> Preferred c) configs"
    using assms by (simp add: list_all_iff)
  have one: "length (filter Preferred (?mark k)) \<le> 1" for k
    using assms by (rule filter_update_le)
  have zero: "length (filter Preferred configs) \<le> 1"
    using assms by (simp add: filter_empty_conv[THEN iffD2])
  consider (npx) "list_ex ?npx configs"
    | (uv) "\<not> list_ex ?npx configs" "list_ex ?uv configs"
    | (docker) "\<not> list_ex ?npx configs" "\<not> list_ex ?uv configs" "list_ex ?docker configs"
    | (plain) "\<not> list_ex ?npx configs" "\<not> list_ex ?uv configs" "\<not> list_ex ?docker configs"
    by blast
  then show ?thesis
  proof cases
    case npx
    from scan_some[OF npx, of 0 "- 1"] obtain k where
      k: "first_with ?npx configs k" "scan_configs ?npx configs 0 (- 1) = int k" by auto
    from k(2) have "MarkPreferred configs = ?mark k"
      by (simp add: MarkPreferred_def Let_def)
    with npx k(1) one[of k] show ?thesis by auto
  next
    case uv
    from scan_some[OF uv(2), of 0 "- 1"] obtain k where
      k: "first_with ?uv configs k" "scan_configs ?uv configs 0 (- 1) = int k" by auto
    from k(2) scan_none[OF uv(1), of 0 "- 1"] have "MarkPreferred configs = ?mark k"
      by (simp add: MarkPreferred_def Let_def)
    with uv k(1) one[of k] show ?thesis by auto
  next
    case docker
    from scan_some[OF docker(3), of 0 "- 1"] obtain k where
      k: "first_with ?docker configs k" "scan_configs ?docker configs 0 (- 1) = int k" by auto
    from k(2) scan_none[OF docker(1), of 0 "- 1"] scan_none[OF docker(2), of 0 "- 1"]
    have "MarkPreferred configs = ?mark k"
      by (simp add: MarkPreferred_def Let_def)
    with docker k(1) one[of k] show ?thesis by auto
  next
    case plain
    from scan_none[OF plain(1), of 0 "- 1"] scan_none[OF plain(2), of 0 "- 1"]
      scan_none[OF plain(3), of 0 "- 1"]
    have "MarkPreferred configs = configs"
      by (simp add: MarkPreferred_def Let_def)
    with plain none zero show ?thesis by auto
  qed
qed

theorem MarkPreferred_priority_witness:
  "list_all (\<lambda>c. \<not> Preferred c) [config_with ''docker'' False, config_with ''npx'' False] \<and>
   MarkPreferred [config_with ''docker'' False, config_with ''npx'' False] =
     [config_with ''docker'' False, config_with ''npx'' True] \<and>
   length (filter Preferred (MarkPreferred [config_with ''docker'' False, config_with ''npx'' False])) \<le> 1"
proof -
  have h: "\<forall>c\<in>set [config_with ''docker'' False, config_with ''npx'' False]. \<not> Preferred c"
    by (simp add: config_with_def)
  have "MarkPreferred [config_with ''docker'' False, config_with ''npx'' False] =
     [config_with ''docker'' False, config_with ''npx'' True]"
    by (simp add: MarkPreferred_def config_with_def)
  with h MarkPreferred_priority [OF h] show ?thesis
    by (simp add: config_with_def)
qed

text \<open>
  C6 as stated fails on a list that arrives with a flag already set (the JSON field
  \<open>preferred\<close> is part of \<open>MCPServerConfig\<close>, and \<open>MarkPreferred\<close> never clears a
  flag): both entries end up preferred.
\<close>

theorem MarkPreferred_two_preferred:
  "length (filter Preferred
     (MarkPreferred [config_with ''docker'' True, config_with ''npx'' False])) = 2"
  by (simp add: MarkPreferred_def config_with_def)

section \<open>Deduplication: properties\<close>

lemma key_inj:
  "a @ CHR '':'' # p = a' @ CHR '':'' # p' \<Longrightarrow> CHR '':'' \<notin> set a \<Longrightarrow> CHR '':'' \<notin> set a' \<Longrightarrow> a = a' \<and> p = p'"
proof (induction a arbitrary: a')
  case Nil
  then show ?case by (cases a') auto
next
  case (Cons x a)
  then show ?case by (cases a') auto
qed

lemma result_key_inj:
  assumes "result_key r = result_key r'"
    and "CHR '':'' \<notin> set (cr_FullName r)" and "CHR '':'' \<notin> set (cr_FullName r')"
  shows "name_and_path r = name_and_path r'"
  using key_inj[of "cr_FullName r" "cr_Path r" "cr_FullName r'" "cr_Path r'"] assms
  by (simp add: result_key_def name_and_path_def)

lemma name_and_path_key: "name_and_path r = name_and_path r' \<Longrightarrow> result_key r = result_key r'"
  by (simp add: result_key_def name_and_path_def)

lemma dedup_loop_subset:
  "set (dedup_loop seen uniq rest) \<subseteq> set uniq \<union> set rest"
proof (induction rest arbitrary: seen uniq)
  case Nil
  then show ?case by simp
next
  case (Cons r rest)
  show ?case
    using Cons.IH[of "insert (cr_FullName r @ '':'' @ cr_Path r) seen" "uniq @ [r]"]
      Cons.IH[of seen uniq]
    by (auto simp: Let_def)
qed


lemma dedup_loop_keys:
  "result_key ` set uniq \<subseteq> seen \<Longrightarrow>
   result_key ` set (dedup_loop seen uniq rest) = result_key ` set uniq \<union> (result_key ` set rest - seen)"
proof (induction rest arbitrary: seen uniq)
  case Nil
  then show ?case by simp
next
  case (Cons r rest)
  let ?k = "result_key r"
  show ?case
  proof (cases "?k \<in> seen")
    case True
    with Cons.IH[OF Cons.prems] show ?thesis
      by (auto simp: Let_def result_key_def)
  next
    case False
    have "result_key ` set (uniq @ [r]) \<subseteq> insert ?k seen"
      using Cons.prems by auto
    from Cons.IH[OF this] False show ?thesis
      by (auto simp: Let_def result_key_def)
  qed
qed

lemma dedup_loop_distinct:
  "result_key ` set uniq \<subseteq> seen \<Longrightarrow> distinct (map result_key uniq) \<Longrightarrow>
   distinct (map result_key (dedup_loop seen uniq rest))"
proof (induction rest arbitrary: seen uniq)
  case Nil
  then show ?case by simp
next
  case (Cons r rest)
  let ?k = "result_key r"
  show ?case
  proof (cases "?k \<in> seen")
    case True
    with Cons.IH[OF Cons.prems] show ?thesis
      by (simp add: Let_def result_key_def)
  next
    case False
    have 1: "result_key ` set (uniq @ [r]) \<subseteq> insert ?k seen"
      using Cons.prems by auto
    have 2: "distinct (map result_key (uniq @ [r]))"
      using Cons.prems False by auto
    from Cons.IH[OF 1 2] False show ?thesis
      by (simp add: Let_def result_key_def)
  qed
qed

lemma distinct_key_pairs:
  assumes "distinct (map result_key xs)"
  shows "distinct (map name_and_path xs)"
proof -
  have "map result_key xs = map (\<lambda>(a, p). a @ '':'' @ p) (map name_and_path xs)"
    by (simp add: result_key_def name_and_path_def)
  with assms show ?thesis by (metis distinct_map)
qed

text \<open>
  C8. For every list of collected search results (their repository full names are
  GitHub's \<open>owner/name\<close> and contain no colon), deduplication yields exactly one
  candidate per distinct (full name, path) pair: the pairs of the output are pairwise
  distinct, they are the pairs of the input, and every candidate kept is one of the
  results collected.
\<close>

theorem deduplicate_one_per_pair:
  assumes "\<forall>r\<in>set allRepos. CHR '':'' \<notin> set (cr_FullName r)"
  shows "distinct (map name_and_path (deduplicate allRepos)) \<and>
         set (map name_and_path (deduplicate allRepos)) = set (map name_and_path allRepos) \<and>
         set (deduplicate allRepos) \<subseteq> set allRepos"
proof -
  let ?out = "deduplicate allRepos"
  have sub: "set ?out \<subseteq> set allRepos"
    using dedup_loop_subset[of "{}" "[]" allRepos] by (simp add: deduplicate_def)
  have keys: "result_key ` set ?out = result_key ` set allRepos"
    using dedup_loop_keys[of "[]" "{}" allRepos] by (simp add: deduplicate_def)
  have "distinct (map result_key ?out)"
    using dedup_loop_distinct[of "[]" "{}" allRepos] by (simp add: deduplicate_def)
  then have d: "distinct (map name_and_path ?out)" by (rule distinct_key_pairs)
  have "name_and_path ` set allRepos \<subseteq> name_and_path ` set ?out"
  proof
    fix q assume "q \<in> name_and_path ` set allRepos"
    then obtain r where r: "r \<in> set allRepos" "q = name_and_path r" by auto
    then have "result_key r \<in> result_key ` set ?out" using keys by auto
    then obtain r' where r': "r' \<in> set ?out" "result_key r = result_key r'" by auto
    with sub have "r' \<in> set allRepos" by auto
    with assms r(1) r'(2) have "name_and_path r = name_and_path r'"
      by (intro result_key_inj) auto
    with r(2) r'(1) show "q \<in> name_and_path ` set ?out" by auto
  qed
  moreover have "name_and_path ` set ?out \<subseteq> name_and_path ` set allRepos"
    using sub by auto
  ultimately have "set (map name_and_path ?out) = set (map name_and_path allRepos)"
    by auto
  with d sub show ?thesis by simp
qed

theorem deduplicate_witness:
  "list_all (\<lambda>r. CHR '':'' \<notin> set (cr_FullName r))
      [result_at ''o/r'' ''README.md'', result_at ''o/r'' ''sub/README.md'', result_at ''o/r'' ''README.md''] \<and>
   map name_and_path (deduplicate
      [result_at ''o/r'' ''README.md'', result_at ''o/r'' ''sub/README.md'', result_at ''o/r'' ''README.md''])
     = [(''o/r'', ''README.md''), (''o/r'', ''sub/README.md'')]"
proof -
  let ?xs = "[result_at ''o/r'' ''README.md'', result_at ''o/r'' ''sub/README.md'', result_at ''o/r'' ''README.md'']"
  have h: "\<forall>r\<in>set ?xs. CHR '':'' \<notin> set (cr_FullName r)"
    by (simp add: result_at_def)
  have "map name_and_path (deduplicate ?xs) = [(''o/r'', ''README.md''), (''o/r'', ''sub/README.md'')]"
    by (simp add: deduplicate_def result_at_def name_and_path_def)
  with h deduplicate_one_per_pair [OF h] show ?thesis
    by (simp add: result_at_def)
qed

text \<open>
  Why the statement speaks of full names without a colon: the key is the concatenation
  \<open>fullName + ":" + path\<close>, which tells two pairs apart only when the first colon ends
  the full name. GitHub's full names have none, so the search never returns such results.
\<close>

lemma result_key_needs_colon_free_names:
  "deduplicate [result_at ''a:b'' ''c'', result_at ''a'' ''b:c''] = [result_at ''a:b'' ''c''] \<and>
   name_and_path (result_at ''a:b'' ''c'') \<noteq> name_and_path (result_at ''a'' ''b:c'')"
  by (simp add: deduplicate_def result_at_def name_and_path_def)


section \<open>SaveRepo: which columns an update writes\<close>

text \<open>
  C9. When \<open>SaveRepo\<close> is called for an existing record with \<open>proposed = true\<close> and
  succeeds, the stored url, description, display name, stars, README text, language,
  path, icon, metadata and tool definitions are those of the record passed in (and the
  proposal column holds its proposed manifest), at once and without any review; the
  manifest column alone keeps the value it had (the key \<open>full_name\<close> aside), and no
  other record changes.
\<close>

theorem SaveRepo_proposed_overwrites:
  assumes "db (FullName repo) = Some row"
    and "SaveRepo w db repo True = (None, db')"
  shows "\<exists>row'. db' (FullName repo) = Some row' \<and>
           url row' = URL repo \<and> description row' = Description repo \<and>
           display_name row' = DisplayName repo \<and> stars row' = Stars repo \<and>
           readme_content row' = ReadmeContent repo \<and> language row' = Language repo \<and>
           path row' = Path repo \<and> icon row' = Icon repo \<and> metadata row' = Metadata repo \<and>
           tool_definitions row' = ToolDefinitions repo \<and>
           proposed_manifest row' = Some (ProposedManifest repo) \<and>
           manifest row' = manifest row \<and> full_name row' = full_name row \<and>
           (\<forall>name. name \<noteq> FullName repo \<longrightarrow> db' name = db name)"
  using assms
  by (auto simp: SaveRepo_def Let_def split: option.splits)

theorem SaveRepo_proposed_overwrites_witness:
  "fst (SaveRepo offline_world [''o/r'' \<mapsto> stored_row ''o/r'' ''old text'' ''[1]'']
          (zero_RepoInfo\<lparr>FullName := ''o/r'', ReadmeContent := ''new text'', Metadata := ''{}'',
             ProposedManifest := ''[2]'', ToolDefinitions := ''{}''\<rparr>) True) = None \<and>
   map_option manifest
     (snd (SaveRepo offline_world [''o/r'' \<mapsto> stored_row ''o/r'' ''old text'' ''[1]'']
          (zero_RepoInfo\<lparr>FullName := ''o/r'', ReadmeContent := ''new text'', Metadata := ''{}'',
             ProposedManifest := ''[2]'', ToolDefinitions := ''{}''\<rparr>) True) ''o/r'') = Some ''[1]'' \<and>
   map_option readme_content
     (snd (SaveRepo offline_world [''o/r'' \<mapsto> stored_row ''o/r'' ''old text'' ''[1]'']
          (zero_RepoInfo\<lparr>FullName := ''o/r'', ReadmeContent := ''new text'', Metadata := ''{}'',
             ProposedManifest := ''[2]'', ToolDefinitions := ''{}''\<rparr>) True) ''o/r'') = Some ''new text''"
proof -
  let ?db = "[''o/r'' \<mapsto> stored_row ''o/r'' ''old text'' ''[1]'']"
  let ?repo = "zero_RepoInfo\<lparr>FullName := ''o/r'', ReadmeContent := ''new text'', Metadata := ''{}'',
             ProposedManifest := ''[2]'', ToolDefinitions := ''{}''\<rparr>"
  obtain e db' where r: "SaveRepo offline_world ?db ?repo True = (e, db')"
    by (cases "SaveRepo offline_world ?db ?repo True")
  have e: "e = None"
    using r by (auto simp: SaveRepo_def offline_world_def rejects_empty_json_def stored_row_def zero_RepoInfo_def Let_def split: if_splits)
  have h1: "?db (FullName ?repo) = Some (stored_row ''o/r'' ''old text'' ''[1]'')"
    by (simp add: zero_RepoInfo_def)
  from SaveRepo_proposed_overwrites [OF h1 r[unfolded e]] r e show ?thesis
    by (auto simp: zero_RepoInfo_def stored_row_def)
qed

text \<open>
  C10. When \<open>SaveRepo\<close> is called for an existing record with \<open>proposed = false\<close> and
  succeeds, the stored proposal column is the placeholder \<open>{}\<close> whatever it held before,
  and the manifest column is the manifest passed in; no other record changes.
\<close>

theorem SaveRepo_direct_clears_proposal:
  assumes "db (FullName repo) = Some row"
    and "SaveRepo w db repo False = (None, db')"
  shows "\<exists>row'. db' (FullName repo) = Some row' \<and>
           proposed_manifest row' = Some ''{}'' \<and> manifest row' = Manifest repo \<and>
           (\<forall>name. name \<noteq> FullName repo \<longrightarrow> db' name = db name)"
  using assms
  by (auto simp: SaveRepo_def Let_def split: option.splits)

theorem SaveRepo_direct_clears_proposal_witness:
  "fst (SaveRepo offline_world
          [''o/r'' \<mapsto> (stored_row ''o/r'' ''old text'' ''[1]'')\<lparr>proposed_manifest := Some ''[2]''\<rparr>]
          (zero_RepoInfo\<lparr>FullName := ''o/r'', Manifest := ''[3]'', Metadata := ''{}'',
             ToolDefinitions := ''{}''\<rparr>) False) = None \<and>
   map_option proposed_manifest
     (snd (SaveRepo offline_world
          [''o/r'' \<mapsto> (stored_row ''o/r'' ''old text'' ''[1]'')\<lparr>proposed_manifest := Some ''[2]''\<rparr>]
          (zero_RepoInfo\<lparr>FullName := ''o/r'', Manifest := ''[3]'', Metadata := ''{}'',
             ToolDefinitions := ''{}''\<rparr>) False) ''o/r'') = Some (Some ''{}'')"
proof -
  let ?db = "[''o/r'' \<mapsto> (stored_row ''o/r'' ''old text'' ''[1]'')\<lparr>proposed_manifest := Some ''[2]''\<rparr>]"
  let ?repo = "zero_RepoInfo\<lparr>FullName := ''o/r'', Manifest := ''[3]'', Metadata := ''{}'',
             ToolDefinitions := ''{}''\<rparr>"
  obtain e db' where r: "SaveRepo offline_world ?db ?repo False = (e, db')"
    by (cases "SaveRepo offline_world ?db ?repo False")
  have e: "e = None"
    using r by (auto simp: SaveRepo_def offline_world_def rejects_empty_json_def stored_row_def zero_RepoInfo_def Let_def split: if_splits)
  have h1: "?db (FullName ?repo) = Some ((stored_row ''o/r'' ''old text'' ''[1]'')\<lparr>proposed_manifest := Some ''[2]''\<rparr>)"
    by (simp add: zero_RepoInfo_def)
  from SaveRepo_direct_clears_proposal [OF h1 r[unfolded e]] r e show ?thesis
    by (auto simp: zero_RepoInfo_def stored_row_def)
qed

section \<open>The backfill and the persist step: frame lemmas\<close>



lemma SaveRepo_failure_frame:
  "SaveRepo w db repo proposed = (Some e, db') \<Longrightarrow> db' = db"
  by (auto simp: SaveRepo_def Let_def split: option.splits)







section \<open>The backfill's retry loop\<close>

text \<open>
  The backfill's retry loop ends as soon as the rate limiter lets one pass through: if
  no search of the \<open>k\<close>-th retry from now is refused, more than \<open>k\<close> passes give an
  outcome.
\<close>

theorem scrapeToolDefinitions_returns:
  assumes "\<forall>query. Search_Code w (attempt + k) query \<noteq> RateLimited"
    and "k < fuel"
  shows "scrapeToolDefinitions w fuel attempt repo \<noteq> None"
  using assms
proof (induction fuel arbitrary: attempt k)
  case 0
  then show ?case by simp
next
  case (Suc fuel)
  show ?case
  proof (cases k)
    case 0
    with Suc.prems(1) have "\<forall>query. Search_Code w attempt query \<noteq> RateLimited" by simp
    then show ?thesis
      by (auto simp: Let_def split: search_response.splits)
  next
    case (Suc k')
    with Suc.prems have "\<forall>query. Search_Code w (Suc attempt + k') query \<noteq> RateLimited" "k' < fuel"
      by simp_all
    from Suc.IH[OF this] show ?thesis
      by (auto simp: Let_def split: search_response.splits)
  qed
qed

theorem scrapeToolDefinitions_returns_witness:
  "scrapeToolDefinitions
     (demo_world\<lparr>Search_Code := (\<lambda>attempt query. if attempt < 2 then RateLimited else SearchResults [])\<rparr>)
     3 0 reloaded_repo \<noteq> None \<and>
   scrapeToolDefinitions
     (demo_world\<lparr>Search_Code := (\<lambda>attempt query. if attempt < 2 then RateLimited else SearchResults [])\<rparr>)
     2 0 reloaded_repo = None"
proof -
  let ?w = "demo_world\<lparr>Search_Code := (\<lambda>attempt query. if attempt < 2 then RateLimited else SearchResults [])\<rparr>"
  have h: "\<forall>query. Search_Code ?w (0 + 2) query \<noteq> RateLimited" by simp
  have k: "(2::nat) < 3" by simp
  have "scrapeToolDefinitions ?w 2 0 reloaded_repo = None"
    by (simp add: numeral_2_eq_2 reloaded_repo_def zero_RepoInfo_def Let_def)
  with scrapeToolDefinitions_returns [OF h k, of reloaded_repo] show ?thesis by simp
qed

text \<open>
  And it never ends while the rate limiter refuses every search: no number of passes
  gives an outcome (the name has its two parts, so the loop is entered).
\<close>

theorem scrapeToolDefinitions_stalls:
  assumes "\<forall>attempt query. Search_Code w attempt query = RateLimited"
    and "2 \<le> length (strings_Split (FullName repo) CHR ''/'')"
  shows "scrapeToolDefinitions w fuel attempt repo = None"
  using assms
  by (induction fuel arbitrary: attempt) (auto simp: Let_def)

theorem scrapeToolDefinitions_stalls_witness:
  "scrapeToolDefinitions (demo_world\<lparr>Search_Code := (\<lambda>attempt query. RateLimited)\<rparr>)
     5 0 reloaded_repo = None"
proof -
  let ?w = "demo_world\<lparr>Search_Code := (\<lambda>attempt query. RateLimited)\<rparr>"
  have h: "\<forall>attempt query. Search_Code ?w attempt query = RateLimited" by simp
  have p: "2 \<le> length (strings_Split (FullName reloaded_repo) CHR ''/'')"
    by (simp add: reloaded_repo_def zero_RepoInfo_def)
  from scrapeToolDefinitions_stalls [OF h p] show ?thesis .
qed

section \<open>AddRepo: propose, do not overwrite\<close>

















section \<open>AddRepo: the pre-filter\<close>

text \<open>
  C7. When the README fetched for a candidate contains none of \<open>mcpServers\<close>,
  \<open>npx\<close>, \<open>docker\<close>, \<open>uv\<close>, \<open>AddRepo\<close> returns the error "no MCP server found" and
  the store is the one it was given, whatever that store holds and whether or not the run
  is forced: the check comes before any store access.
\<close>

theorem AddRepo_rejects_without_keywords:
  assumes "Repositories_Get w owner repo = Inr githubRepo"
    and "Repositories_GetContents w (repo_OwnerLogin githubRepo) (repo_Name githubRepo) path' = Inr readmeContent"
    and "\<not> strings_Contains readmeContent ''mcpServers''"
    and "\<not> strings_Contains readmeContent ''npx''"
    and "\<not> strings_Contains readmeContent ''docker''"
    and "\<not> strings_Contains readmeContent ''uv''"
  shows "AddRepo w fuel db owner repo path' force =
           Some (Returned (Some (''no MCP server found in repository ''
                                   @ derived_fullName githubRepo path')), db)"
  using assms by (simp add: AddRepo_def AddRepo_prepare_def Let_def)

theorem AddRepo_rejects_without_keywords_witness:
  "AddRepo (demo_world\<lparr>Repositories_GetContents := (\<lambda>owner repo path'. Inr ''plain notes'')\<rparr>)
     1 demo_store ''o'' ''r'' ''README.md'' True =
   Some (Returned (Some ''no MCP server found in repository o/r''), demo_store)"
proof -
  let ?w = "demo_world\<lparr>Repositories_GetContents := (\<lambda>owner repo path'. Inr ''plain notes'')\<rparr>"
  have get: "Repositories_Get ?w ''o'' ''r'' = Inr demo_repository"
    by (simp add: demo_world_def)
  have contents: "Repositories_GetContents ?w (repo_OwnerLogin demo_repository)
      (repo_Name demo_repository) ''README.md'' = Inr ''plain notes''"
    by simp
  have k: "\<not> strings_Contains ''plain notes'' ''mcpServers''" "\<not> strings_Contains ''plain notes'' ''npx''"
    "\<not> strings_Contains ''plain notes'' ''docker''" "\<not> strings_Contains ''plain notes'' ''uv''"
    by simp_all
  have fn: "derived_fullName demo_repository ''README.md'' = ''o/r''"
    by (simp add: derived_fullName_def demo_repository_def)
  from AddRepo_rejects_without_keywords [where db = demo_store and fuel = 1 and force = True,
      OF get contents k]
  show ?thesis by (simp add: fn)
qed

section \<open>AddRepo: unchanged content\<close>





section \<open>AddRepo: a failed backfill\<close>

lemma backfill_and_save_scrape_failed:
  assumes "list_ex Preferred (Configs analysis)"
    and "stored = [] \<or> stored = ''{}'' \<or> force"
    and "scrapeToolDefinitions w fuel 0 repoInfo = Some r"
    and "\<forall>repoInfo'. r \<noteq> Returned (None, repoInfo')"
  shows "\<exists>out. backfill_and_save w fuel db fullName force stored analysis repoInfo proposed = Some (out, db)
           \<and> out \<noteq> Returned None"
proof (cases r)
  case Panicked
  with assms show ?thesis by (simp add: backfill_and_save_def)
next
  case (Returned p)
  obtain e repo' where p: "p = (e, repo')" by (cases p)
  with Returned assms(4) obtain err where "e = Some err" by (cases e) auto
  with Returned p assms(1-3) show ?thesis by (simp add: backfill_and_save_def)
qed

text \<open>
  C4. When an ingestion reaches the backfill (a preferred config was found, and the
  stored tool definitions are empty or the placeholder or the run is forced) and the
  backfill ends in an error or a panic, \<open>AddRepo\<close> ends without \<open>nil\<close> and the store is the
  one it was given: \<open>SaveRepo\<close> is called only after a backfill that succeeded or was
  skipped.
\<close>

theorem AddRepo_backfill_failure_persists_nothing:
  assumes "AddRepo_prepare w db owner repo path' force = Continue proposed repoFromDB analysis repoInfo"
    and "list_ex Preferred (Configs analysis)"
    and "ToolDefinitions repoFromDB = [] \<or> ToolDefinitions repoFromDB = ''{}'' \<or> force"
    and "scrapeToolDefinitions w fuel 0 repoInfo = Some r"
    and "\<forall>repoInfo'. r \<noteq> Returned (None, repoInfo')"
  shows "\<exists>out. AddRepo w fuel db owner repo path' force = Some (out, db) \<and> out \<noteq> Returned None"
  using backfill_and_save_scrape_failed[where db = db, OF assms(2-5)] assms(1)
  by (simp add: AddRepo_def)

theorem AddRepo_backfill_failure_persists_nothing_witness:
  "AddRepo (demo_world\<lparr>tools_completion := (\<lambda>data readme. Inl ''timeout'')\<rparr>)
     1 demo_store ''o'' ''r'' ''README.md'' False =
   Some (Returned (Some ''error scraping tool definitions for repository o/r: error getting response from OpenAI: timeout''),
         demo_store)"
proof -
  let ?w = "demo_world\<lparr>tools_completion := (\<lambda>data readme. Inl ''timeout'')\<rparr>"
  let ?fromDB = "zero_RepoInfo\<lparr>ReadmeContent := ''run: npx server'', Manifest := ''[1]'',
      Metadata := ''{}'', ToolDefinitions := ''{}''\<rparr>"
  let ?analysis = "\<lparr>manifest_Name = ''server'', manifest_Description = ''does things'',
      Category = ''Developer Tools'',
      Configs = [config_with ''docker'' False, config_with ''npx'' True]\<rparr>"
  let ?repoInfo = "zero_RepoInfo\<lparr>Path := ''README.md'', DisplayName := ''server'',
      FullName := ''o/r'', URL := ''https://github.com/o/r'', Description := ''does things'',
      Stars := 7, ReadmeContent := ''run: npx server v2'', Language := ''Go'', Metadata := ''{}'',
      Icon := ''https://avatars/o'', ProposedManifest := ''docker;npx*;''\<rparr>"
  have prep: "AddRepo_prepare ?w demo_store ''o'' ''r'' ''README.md'' False
      = Continue True ?fromDB ?analysis ?repoInfo"
    by (simp add: AddRepo_prepare_def AddRepo_analyse_def AnalyzeWithOpenAI_def
        QueryRow_stored_def derived_fullName_def derived_URL_def MarkPreferred_def
        demo_world_def offline_world_def demo_store_def demo_repository_def stored_row_def
        render_configs_def config_with_def zero_RepoInfo_def Let_def)
  have pref: "list_ex Preferred (Configs ?analysis)"
    by (simp add: config_with_def)
  have due: "ToolDefinitions ?fromDB = [] \<or> ToolDefinitions ?fromDB = ''{}'' \<or> False"
    by simp
  have scrape: "scrapeToolDefinitions ?w 1 0 ?repoInfo
      = Some (Returned (Some ''error getting response from OpenAI: timeout'', ?repoInfo))"
    by (simp add: extract_tools_def demo_world_def offline_world_def zero_RepoInfo_def
        strings_TrimSuffix_def Let_def)
  have failed: "\<forall>repoInfo'. Returned (Some ''error getting response from OpenAI: timeout'', ?repoInfo)
      \<noteq> Returned (None, repoInfo')"
    by simp
  from AddRepo_backfill_failure_persists_nothing [where db = demo_store, OF prep pref due scrape failed]
  have "\<exists>out. AddRepo ?w 1 demo_store ''o'' ''r'' ''README.md'' False = Some (out, demo_store)
           \<and> out \<noteq> Returned None" .
  moreover have "AddRepo ?w 1 demo_store ''o'' ''r'' ''README.md'' False
      = Some (Returned (Some ''error scraping tool definitions for repository o/r: error getting response from OpenAI: timeout''),
         demo_store)"
    by (simp add: AddRepo_def AddRepo_prepare_def AddRepo_analyse_def AnalyzeWithOpenAI_def
      backfill_and_save_def extract_tools_def
      QueryRow_stored_def derived_fullName_def derived_URL_def MarkPreferred_def
      demo_world_def offline_world_def demo_store_def demo_repository_def stored_row_def
      render_configs_def config_with_def zero_RepoInfo_def strings_TrimSuffix_def
      Let_def)
  ultimately show ?thesis by simp
qed

section \<open>Further properties of the ingestion\<close>

lemma save_with_placeholder_failure_frame:
  "save_with_placeholder w db repo proposed = (out, db') \<Longrightarrow> out \<noteq> Returned None \<Longrightarrow> db' = db"
  by (auto simp: save_with_placeholder_def Let_def split: prod.splits if_splits
           dest: SaveRepo_failure_frame)

lemma backfill_and_save_failure_frame:
  assumes "backfill_and_save w fuel db fullName force stored analysis repoInfo proposed = Some (out, db')"
    and "out \<noteq> Returned None"
  shows "db' = db"
proof (cases "list_ex Preferred (Configs analysis) \<and> (stored = [] \<or> stored = ''{}'' \<or> force)")
  case False
  with assms show ?thesis
    by (auto simp: backfill_and_save_def dest: save_with_placeholder_failure_frame)
next
  case True
  with assms show ?thesis
    by (auto simp: backfill_and_save_def
          split: option.splits outcome.splits prod.splits
          dest: save_with_placeholder_failure_frame)
qed

text \<open>
  All or nothing: an \<open>AddRepo\<close> that ends in an error or a panic leaves the store as
  it found it, whichever step failed.
\<close>

theorem AddRepo_failure_persists_nothing:
  assumes "AddRepo w fuel db owner repo path' force = Some (out, db')"
    and "out \<noteq> Returned None"
  shows "db' = db"
proof (cases "AddRepo_prepare w db owner repo path' force")
  case (Stop e)
  with assms show ?thesis by (simp add: AddRepo_def)
next
  case (Continue proposed repoFromDB analysis repoInfo)
  with assms(1) have "backfill_and_save w fuel db (FullName repoInfo) force
      (ToolDefinitions repoFromDB) analysis repoInfo proposed = Some (out, db')"
    by (simp add: AddRepo_def)
  from backfill_and_save_failure_frame[OF this assms(2)] show ?thesis .
qed

theorem AddRepo_failure_persists_nothing_witness:
  "AddRepo (demo_world\<lparr>count_err := Some ''connection refused''\<rparr>)
     1 demo_store ''o'' ''r'' ''README.md'' False =
   Some (Returned (Some ''error checking if repository exists: connection refused''), demo_store)"
proof -
  let ?w = "demo_world\<lparr>count_err := Some ''connection refused''\<rparr>"
  have "\<exists>db'. AddRepo ?w 1 demo_store ''o'' ''r'' ''README.md'' False =
      Some (Returned (Some ''error checking if repository exists: connection refused''), db')"
    by (simp add: AddRepo_def AddRepo_prepare_def AddRepo_analyse_def AnalyzeWithOpenAI_def
      backfill_and_save_def save_with_placeholder_def SaveRepo_def extract_tools_def
      QueryRow_stored_def derived_fullName_def derived_URL_def MarkPreferred_def
      demo_world_def offline_world_def demo_store_def demo_repository_def stored_row_def
      render_configs_def config_with_def zero_RepoInfo_def strings_TrimSuffix_def
      Let_def)
  then obtain db' where run: "AddRepo ?w 1 demo_store ''o'' ''r'' ''README.md'' False =
      Some (Returned (Some ''error checking if repository exists: connection refused''), db')"
    by blast
  have "Returned (Some ''error checking if repository exists: connection refused'')
      \<noteq> (Returned None :: error option outcome)"
    by simp
  from AddRepo_failure_persists_nothing [OF run this] run show ?thesis by simp
qed

section \<open>Where the code departs from the specification\<close>

text \<open>
  C2. The specification wants a \<open>Verified\<close> tag to survive re-analysis. The test in
  \<open>UpdateRepo\<close> is inverted: the tag is appended when the stored categories do not hold
  it, and left out when they do. A record tagged \<open>Developer Tools,Verified\<close> whose new
  analysis says \<open>Developer Tools\<close> ends up without the tag, and an untagged one gains it.
\<close>

theorem merge_categories_drops_Verified:
  "merge_categories [''categories'' \<mapsto> ''Developer Tools,Verified''] ''Developer Tools'' ''categories''
     = Some ''Developer Tools'' \<and>
   merge_categories [''categories'' \<mapsto> ''Developer Tools''] ''Developer Tools'' ''categories''
     = Some ''Developer Tools,Verified''"
  by (simp add: merge_categories_def slices_Contains_def Let_def)

text \<open>
  C3. The specification wants a failed analysis (the call's error, no choice, a response
  that does not parse) to end the ingestion before \<open>SaveRepo\<close>, with an error for the
  caller. \<open>UpdateRepo\<close> and \<open>AddRepo\<close> log the failure and go on: a re-analysis of a
  stored record runs the \<open>UPDATE\<close> and returns \<open>nil\<close> in each of the three cases, and
  the ingestion of a new candidate reaches the \<open>INSERT\<close>, whose own error (an empty
  manifest is not JSON) is what the caller gets.
\<close>

theorem failed_analysis_reaches_SaveRepo:
  "UpdateRepo (demo_world\<lparr>analysis_completion := (\<lambda>repoName readme. Inl ''status code: 500'')\<rparr>)
      1 demo_store reloaded_repo False ''o/r'' ''run: npx server''
     = Some (Returned None,
         demo_store(''o/r'' \<mapsto> (stored_row ''o/r'' ''run: npx server'' ''[1]'')\<lparr>proposed_manifest := Some ''{}''\<rparr>)) \<and>
   UpdateRepo (demo_world\<lparr>analysis_completion := (\<lambda>repoName readme. Inr [])\<rparr>)
      1 demo_store reloaded_repo False ''o/r'' ''run: npx server''
     = Some (Returned None,
         demo_store(''o/r'' \<mapsto> (stored_row ''o/r'' ''run: npx server'' ''[1]'')\<lparr>proposed_manifest := Some ''{}''\<rparr>)) \<and>
   UpdateRepo (demo_world\<lparr>json_Unmarshal_manifest :=
        (\<lambda>content. (zero_MCPServerManifest, Some ''invalid character'')) \<rparr>)
      1 demo_store reloaded_repo False ''o/r'' ''run: npx server''
     = Some (Returned None,
         demo_store(''o/r'' \<mapsto> (stored_row ''o/r'' ''run: npx server'' ''[1]'')\<lparr>proposed_manifest := Some ''{}''\<rparr>)) \<and>
   AddRepo (demo_world\<lparr>analysis_completion := (\<lambda>repoName readme. Inl ''status code: 500'')\<rparr>)
      1 Map.empty ''o'' ''r'' ''README.md'' False
     = Some (Returned (Some ''error inserting repository o/r: pq: invalid input syntax for type json''),
         Map.empty)"
  by (simp add: UpdateRepo_def AddRepo_def AddRepo_prepare_def AddRepo_analyse_def
      AnalyzeWithOpenAI_def backfill_and_save_def save_with_placeholder_def SaveRepo_def
      QueryRow_stored_def derived_fullName_def derived_URL_def
      demo_world_def offline_world_def demo_store_def demo_repository_def stored_row_def
      reloaded_repo_def rejects_empty_json_def zero_RepoInfo_def zero_MCPServerManifest_def
      Let_def)


end
